theory Spec2Isabelle
  imports Main "HOL-Library.Sublist"
begin

section \<open>Data model\<close>

text \<open>
  A Python \<open>str\<close> is a sequence of Unicode code points, a \<open>bytes\<close> object a sequence
  of bytes. The document is the byte content of the uploaded file.
\<close>

type_synonym pystr = "nat list"
type_synonym pybytes = "string"

definition ascii :: "string \<Rightarrow> pystr" where
  "ascii s = map of_char s"

text \<open>
  \<open>str.isspace\<close> for one code point: the code points CPython treats as whitespace
  (U+0009..U+000D, U+001C..U+0020, U+0085, U+00A0, U+1680, U+2000..U+200A, U+2028,
  U+2029, U+202F, U+205F, U+3000).
\<close>

definition isspace :: "nat \<Rightarrow> bool" where
  "isspace c \<longleftrightarrow>
     (9 \<le> c \<and> c \<le> 13) \<or> (28 \<le> c \<and> c \<le> 32) \<or> c = 133 \<or> c = 160 \<or> c = 5760 \<or>
     (8192 \<le> c \<and> c \<le> 8202) \<or> c = 8232 \<or> c = 8233 \<or> c = 8239 \<or> c = 8287 \<or> c = 12288"

text \<open>\<open>s.strip()\<close>: leading and trailing whitespace removed.\<close>

definition strip :: "pystr \<Rightarrow> pystr" where
  "strip s = rev (dropWhile isspace (rev (dropWhile isspace s)))"

text \<open>\<open>sep.join(xs)\<close>.\<close>

fun join :: "pystr \<Rightarrow> pystr list \<Rightarrow> pystr" where
  "join sep [] = []"
| "join sep [x] = x"
| "join sep (x # y # ys) = x @ sep @ join sep (y # ys)"

definition newline :: pystr where
  "newline = [10]"

text \<open>
  An exception (an instance of \<open>Exception\<close>, the class the handler of \<open>analyze_resume\<close>
  catches) carries the text \<open>str(e)\<close>. The program tells \<open>json.JSONDecodeError\<close> (and
  its subclasses) from every other exception.
\<close>

datatype exn = JSONDecodeError pystr | OtherException pystr

fun str_exn :: "exn \<Rightarrow> pystr" where
  "str_exn (JSONDecodeError m) = m"
| "str_exn (OtherException m) = m"

text \<open>
  A surrogate code point (U+D800..U+DFFF) has no UTF-8 encoding: \<open>s.encode("utf-8")\<close>
  raises \<open>UnicodeEncodeError\<close> on a string that holds one.
\<close>

definition encodable :: "pystr \<Rightarrow> bool" where
  "encodable s = list_all (\<lambda>c. c < 55296 \<or> 57343 < c) s"

text \<open>
  The values \<open>json.loads\<close> produces: \<open>None\<close>, \<open>bool\<close>, \<open>int\<close>, \<open>float\<close> (which
  includes the non-finite values), \<open>str\<close>, \<open>list\<close> and \<open>dict\<close> (keys in insertion
  order). A finite float \<open>Finite m e\<close> stands for \<open>m * 2 ^ e\<close>; no arithmetic is done on it.
\<close>

datatype pyfloat = Finite int int | PosInf | NegInf | NaN

datatype json =
    JNull
  | JBool bool
  | JInt int
  | JFloat pyfloat
  | JStr pystr
  | JArr "json list"
  | JObj "(pystr \<times> json) list"

record response =
  status_code :: nat
  content :: json

section \<open>The libraries and the outside world\<close>

text \<open>
  The libraries the program calls are parameters: each call returns a value or raises.
  \<^item> \<open>PdfReader data pos\<close>: \<open>pdf.PdfReader(file.file).pages\<close> on a stream holding \<open>data\<close>,
    positioned at \<open>pos\<close>; \<open>reader_tell data\<close> is where the reader and the extraction of the
    pages' text leave the stream.
  \<^item> \<open>extract_text page\<close>: \<open>page.extract_text()\<close>, which may return \<open>None\<close>.
  \<^item> \<open>convert_from_bytes data\<close>: one image per page, in page order.
  \<^item> \<open>image_to_string image\<close>: \<open>pytesseract.image_to_string(image)\<close>.
  \<^item> \<open>generate_content name config prompt\<close>: the text of
    \<open>genai.GenerativeModel(name, generation_config=config).generate_content(prompt)\<close>.
  \<^item> \<open>json_loads s\<close>: \<open>json.loads(s)\<close>.
  \<^item> \<open>json_dumps_raises v\<close>: the message of the exception, if any, that serialising \<open>v\<close>
    as a response body raises. \<open>JSONResponse(content=v)\<close> serialises in its constructor,
    with \<open>json.dumps(v, allow_nan=False, ...).encode("utf-8")\<close>, and so raises \<open>ValueError\<close>
    on a value that holds a non-finite float.
  \<^item> \<open>encode_error kvs\<close>: the message of the \<open>UnicodeEncodeError\<close> that the same
    constructor raises on a dict of strings \<open>kvs\<close> of which one cannot be encoded.
  The serialiser's messages are ASCII text (\<open>UnicodeEncodeError\<close> names the offending
  character by its escape), so they are typed as byte strings.
\<close>

record generation_config =
  response_mime_type :: pystr
  temperature :: pystr
  max_output_tokens :: nat

record ('p, 'i) env =
  PdfReader :: "pybytes \<Rightarrow> nat \<Rightarrow> exn + 'p list"
  reader_tell :: "pybytes \<Rightarrow> nat"
  extract_text :: "'p \<Rightarrow> exn + pystr option"
  convert_from_bytes :: "pybytes \<Rightarrow> exn + 'i list"
  image_to_string :: "'i \<Rightarrow> exn + pystr"
  generate_content :: "pystr \<Rightarrow> generation_config \<Rightarrow> pystr \<Rightarrow> exn + pystr"
  json_loads :: "pystr \<Rightarrow> exn + json"
  json_dumps_raises :: "json \<Rightarrow> string option"
  encode_error :: "(pystr \<times> pystr) list \<Rightarrow> string"

text \<open>
  The effects of a request: the position of the upload's stream, and the log of the calls
  made to the libraries, oldest first.
\<close>

datatype ('p, 'i) call =
    Seek nat
  | OpenReader
  | ExtractText 'p
  | ReadStream
  | ConvertFromBytes pybytes
  | ImageToString 'i
  | GenerateContent pystr
  | JsonLoads pystr

record ('p, 'i) world =
  position :: nat
  calls :: "('p, 'i) call list"

definition log :: "('p, 'i) call \<Rightarrow> ('p, 'i) world \<Rightarrow> ('p, 'i) world" where
  "log c w = w\<lparr>calls := calls w @ [c]\<rparr>"

text \<open>\<open>file.file.seek(0)\<close>.\<close>

definition seek0 :: "('p, 'i) world \<Rightarrow> ('p, 'i) world" where
  "seek0 w = log (Seek 0) (w\<lparr>position := 0\<rparr>)"

text \<open>\<open>file.file.read()\<close>: the bytes from the position to the end.\<close>

definition read_stream :: "pybytes \<Rightarrow> ('p, 'i) world \<Rightarrow> pybytes \<times> ('p, 'i) world" where
  "read_stream file w =
     (drop (position w) file, log ReadStream (w\<lparr>position := max (position w) (length file)\<rparr>))"

text \<open>\<open>reader = pdf.PdfReader(file.file)\<close> and its \<open>pages\<close>.\<close>

definition open_reader ::
  "('p, 'i) env \<Rightarrow> pybytes \<Rightarrow> ('p, 'i) world \<Rightarrow> (exn + 'p list) \<times> ('p, 'i) world" where
  "open_reader env file w =
     (PdfReader env file (position w), log OpenReader (w\<lparr>position := reader_tell env file\<rparr>))"

section \<open>The Extractor\<close>

text \<open>\<open>[page.extract_text() or "" for page in reader.pages]\<close>: the first exception ends it.\<close>

fun or_empty :: "pystr option \<Rightarrow> pystr" where
  "or_empty None = []"
| "or_empty (Some s) = s"

fun page_texts ::
  "('p, 'i) env \<Rightarrow> 'p list \<Rightarrow> ('p, 'i) world \<Rightarrow> (exn + pystr list) \<times> ('p, 'i) world" where
  "page_texts env [] w = (Inr [], w)"
| "page_texts env (page # pages) w =
     (case extract_text env page of
        Inl e \<Rightarrow> (Inl e, log (ExtractText page) w)
      | Inr t \<Rightarrow>
          (case page_texts env pages (log (ExtractText page) w) of
             (Inl e, w') \<Rightarrow> (Inl e, w')
           | (Inr ts, w') \<Rightarrow> (Inr (or_empty t # ts), w')))"

text \<open>\<open>for image in images: ocr_text += pytesseract.image_to_string(image)\<close>.\<close>

fun ocr_loop ::
  "('p, 'i) env \<Rightarrow> 'i list \<Rightarrow> pystr \<Rightarrow> ('p, 'i) world \<Rightarrow> (exn + pystr) \<times> ('p, 'i) world" where
  "ocr_loop env [] ocr_text w = (Inr ocr_text, w)"
| "ocr_loop env (img # images) ocr_text w =
     (case image_to_string env img of
        Inl e \<Rightarrow> (Inl e, log (ImageToString img) w)
      | Inr t \<Rightarrow> ocr_loop env images (ocr_text @ t) (log (ImageToString img) w))"

definition extract_text_from_pdf ::
  "('p, 'i) env \<Rightarrow> pybytes \<Rightarrow> ('p, 'i) world \<Rightarrow> (exn + pystr) \<times> ('p, 'i) world" where
  "extract_text_from_pdf env file w0 =
     (case open_reader env file (seek0 w0) of
        (Inl e, w1) \<Rightarrow> (Inl e, w1)
      | (Inr pages, w1) \<Rightarrow>
          (case page_texts env pages w1 of
             (Inl e, w2) \<Rightarrow> (Inl e, w2)
           | (Inr texts, w2) \<Rightarrow>
               let text = join newline texts in
               if strip text \<noteq> [] then (Inr text, w2)
               else
                 (case read_stream file (seek0 w2) of
                    (data, w3) \<Rightarrow>
                      (case convert_from_bytes env data of
                         Inl e \<Rightarrow> (Inl e, log (ConvertFromBytes data) w3)
                       | Inr images \<Rightarrow> ocr_loop env images [] (log (ConvertFromBytes data) w3)))))"

section \<open>The Analyzer gateway\<close>

text \<open>
  The f-string of \<open>get_gemini_response\<close>, with \<open>{{\<close> and \<open>}}\<close> written as the braces they
  stand for: the lines up to the job description (each after a line break), then the two
  values with the fixed text around them.
\<close>

definition prompt_head_lines :: "string list" where
  \<open>prompt_head_lines =
    [''    Analyze this resume against the job description with strict ATS scoring and detailed writing improvements. '',
     ''    Follow this exact JSON structure:'',
     '''',
     ''    {'',
     ''      "ATS_Analysis": {'',
     ''        "Total_Score": "X%",'',
     ''        "Breakdown": {'',
     ''          "Keyword_Match": "X%",'',
     ''          "Experience_Match": "X%",'',
     ''          "Skill_Alignment": "X%",'',
     ''          "Grammar_Score": "X%"'',
     ''        },'',
     ''        "Missing_Keywords": {'',
     ''          "Hard_Skills": ["list"],'',
     ''          "Soft_Skills": ["list"],'',
     ''          "Critical_Missing": ["top 5"]'',
     ''        },'',
     ''        "Experience_Gaps": {'',
     ''          "Years_Short": X,'',
     ''          "Missing_Roles": ["list"],'',
     ''          "Industry_Gaps": ["list"]'',
     ''        }'',
     ''      },'',
     ''      "Writing_Improvements": {'',
     ''        "Total_Errors": X,'',
     ''        "Errors": ['',
     ''          {'',
     ''            "Original_Text": "exact phrase",'',
     ''            "Section": "specific section",'',
     ''            "Line_Number": X,'',
     ''            "Error_Type": "Grammar|Style|Formatting|Word_Choice",'',
     ''            "Correction": "exact replacement",'',
     ''            "Explanation": "technical reason",'',
     ''            "Severity": "Critical|High|Medium"'',
     ''          }'',
     ''        ],'',
     ''        "Style_Recommendations": ['',
     ''          {'',
     ''            "Issue": "specific problem",'',
     ''            "Example": "original text",'',
     ''            "Improved_Version": "rewritten text",'',
     ''            "Section": "where to apply"'',
     ''          }'',
     ''        ]'',
     ''      },'',
     ''      "Optimization_Tips": ["prioritized list"]'',
     ''    }'',
     '''',
     ''    Analysis Requirements:'',
     ''    1. ATS Scoring (60% weight):'',
     ''       - Compare skills/experience with JD'',
     ''       - Calculate keyword match percentage'',
     ''       - Identify critical missing requirements'',
     ''    '',
     ''    2. Writing Analysis (40% weight):'',
     ''       - Find ALL grammatical errors with exact locations'',
     ''       - Require exact replacement text'',
     ''       - Classify error types technically'',
     ''       - Highlight style inconsistencies'',
     ''       - Suggest measurable improvements'',
     ''    '',
     ''    3. Formatting Checks:'',
     ''       - Bullet point consistency'',
     ''       - Tense uniformity'',
     ''       - Date formats'',
     ''       - Section ordering'',
     '''',
     ''    Job Description: '']\<close>

definition prompt_head :: pystr where
  "prompt_head = concat (map (\<lambda>l. newline @ ascii l) prompt_head_lines)"

definition prompt_mid :: pystr where
  "prompt_mid = newline @ ascii ''    Resume Text: ''"

definition prompt_tail :: pystr where
  "prompt_tail = newline @ ascii ''    ''"

definition input_prompt :: "pystr \<Rightarrow> pystr \<Rightarrow> pystr" where
  "input_prompt resume_text job_description =
     prompt_head @ job_description @ prompt_mid @ resume_text @ prompt_tail"

definition model_name :: pystr where
  "model_name = ascii ''gemini-2.5-flash''"

definition config :: generation_config where
  "config = \<lparr>response_mime_type = ascii ''application/json'',
              temperature = ascii ''0.1'',
              max_output_tokens = 4096\<rparr>"

definition get_gemini_response ::
  "('p, 'i) env \<Rightarrow> pystr \<Rightarrow> pystr \<Rightarrow> ('p, 'i) world \<Rightarrow> (exn + pystr) \<times> ('p, 'i) world" where
  "get_gemini_response env resume_text job_description w =
     (generate_content env model_name config (input_prompt resume_text job_description),
      log (GenerateContent (input_prompt resume_text job_description)) w)"

section \<open>The endpoint\<close>

text \<open>
  \<open>JSONResponse(status_code=sc, content=c)\<close> for a value \<open>c\<close> that came from \<open>json.loads\<close>:
  the constructor serialises \<open>c\<close>, and raises what the serialiser raises (a \<open>ValueError\<close>,
  a \<open>RecursionError\<close> or a \<open>UnicodeEncodeError\<close>, none of them a \<open>JSONDecodeError\<close>).
\<close>

definition JSONResponse :: "('p, 'i) env \<Rightarrow> nat \<Rightarrow> json \<Rightarrow> exn + response" where
  "JSONResponse env sc c =
     (case json_dumps_raises env c of
        Some m \<Rightarrow> Inl (OtherException (ascii m))
      | None \<Rightarrow> Inr \<lparr>status_code = sc, content = c\<rparr>)"

text \<open>
  \<open>JSONResponse(status_code=sc, content={k: v, ...})\<close> for a dict literal whose keys and
  values are strings (a fixed message, \<open>str(e)\<close>, the service's text). Serialising a dict
  of strings succeeds, and encoding the result as UTF-8 raises \<open>UnicodeEncodeError\<close> when
  one of the strings holds a surrogate.
\<close>

definition JSONResponse_strs ::
  "('p, 'i) env \<Rightarrow> nat \<Rightarrow> (pystr \<times> pystr) list \<Rightarrow> exn + response" where
  "JSONResponse_strs env sc kvs =
     (if list_all (\<lambda>(k, v). encodable k \<and> encodable v) kvs then
        Inr \<lparr>status_code = sc, content = JObj (map (\<lambda>(k, v). (k, JStr v)) kvs)\<rparr>
      else Inl (OtherException (ascii (encode_error env kvs))))"

definition error_key :: pystr where
  "error_key = ascii ''error''"

definition raw_response_key :: pystr where
  "raw_response_key = ascii ''raw_response''"

definition unreadable_message :: pystr where
  "unreadable_message =
     ascii ''Could not extract text from PDF or image. Make sure your resume contains readable text.''"

definition invalid_json_message :: pystr where
  "invalid_json_message = ascii ''Gemini output is not valid JSON.''"

text \<open>
  The body of the \<open>try\<close> of \<open>analyze_resume\<close>: a response, or the exception that leaves
  it. An exception raised while the \<open>except json.JSONDecodeError\<close> clause builds its
  response leaves the \<open>try\<close> like any other.
\<close>

definition analyze_resume_try ::
  "('p, 'i) env \<Rightarrow> pybytes \<Rightarrow> pystr \<Rightarrow> ('p, 'i) world \<Rightarrow> (exn + response) \<times> ('p, 'i) world" where
  "analyze_resume_try env file job_description w0 =
     (case extract_text_from_pdf env file w0 of
        (Inl e, w1) \<Rightarrow> (Inl e, w1)
      | (Inr resume_text, w1) \<Rightarrow>
          if strip resume_text = [] then
            (JSONResponse_strs env 400 [(error_key, unreadable_message)], w1)
          else
            (case get_gemini_response env resume_text job_description w1 of
               (Inl e, w2) \<Rightarrow> (Inl e, w2)
             | (Inr gemini_response, w2) \<Rightarrow>
                 (case json_loads env gemini_response of
                    Inl (JSONDecodeError m) \<Rightarrow>
                      (JSONResponse_strs env 500
                         [(error_key, invalid_json_message), (raw_response_key, gemini_response)],
                       log (JsonLoads gemini_response) w2)
                  | Inl (OtherException m) \<Rightarrow>
                      (Inl (OtherException m), log (JsonLoads gemini_response) w2)
                  | Inr response_json \<Rightarrow>
                      (JSONResponse env 200 response_json, log (JsonLoads gemini_response) w2))))"

text \<open>
  \<open>analyze_resume\<close>: the \<open>try\<close> with its \<open>except Exception as e\<close>. The result is the
  response the handler returns, or the exception that leaves the handler when building the
  response of the \<open>except\<close> clause raises.
\<close>

definition analyze_resume ::
  "('p, 'i) env \<Rightarrow> pybytes \<Rightarrow> pystr \<Rightarrow> ('p, 'i) world \<Rightarrow> (exn + response) \<times> ('p, 'i) world" where
  "analyze_resume env file job_description w0 =
     (case analyze_resume_try env file job_description w0 of
        (Inl e, w) \<Rightarrow> (JSONResponse_strs env 500 [(error_key, str_exn e)], w)
      | (Inr r, w) \<Rightarrow> (Inr r, w))"

section \<open>Reading the log and the response\<close>

text \<open>The calls of the image and OCR path, and the calls to the generation service.\<close>

fun ocr_path :: "('p, 'i) call \<Rightarrow> bool" where
  "ocr_path (ConvertFromBytes d) = True"
| "ocr_path (ImageToString i) = True"
| "ocr_path c = False"

fun generate_call :: "('p, 'i) call \<Rightarrow> bool" where
  "generate_call (GenerateContent p) = True"
| "generate_call c = False"

text \<open>The keys of a JSON object (none for any other value).\<close>

fun json_keys :: "json \<Rightarrow> pystr list" where
  "json_keys (JObj kvs) = map fst kvs"
| "json_keys v = []"

text \<open>The world before a request: the stream at its start, nothing called yet.\<close>

definition fresh :: "('p, 'i) world" where
  "fresh = \<lparr>position = 0, calls = []\<rparr>"

section \<open>Sample documents and libraries\<close>

text \<open>
  Stand-ins for the libraries, for the closed examples below. A page is what its text
  layer holds (\<open>None\<close> for a page without one), an image is what OCR reads in it.
  \<^item> \<open>text_pdf\<close> has three pages, the second without text;
  \<^item> \<open>scanned_pdf\<close> has two pages without a usable text layer and readable images;
  \<^item> \<open>blank_pdf\<close> has one page, with no text layer and nothing to read in its image;
  \<^item> \<open>feed_pdf\<close> has one page, for which OCR returns a lone form feed;
  \<^item> any other bytes are not a PDF, and the reader raises.
  The service replies \<open>reply\<close> whatever the prompt. \<open>sample_loads\<close> knows a few texts
  and takes any other for malformed; as \<open>json.loads\<close> does, it reads \<open>1e999\<close> as the
  float \<open>inf\<close>, and fails with \<open>RecursionError\<close>, which is no \<open>JSONDecodeError\<close>, on a
  hundred thousand opening brackets. The serialiser refuses non-finite floats, as
  \<open>json.dumps\<close> does with \<open>allow_nan=False\<close>, and reports a surrogate the way the UTF-8
  codec does, with its position in the serialised body.
\<close>

definition text_pdf :: pybytes where
  "text_pdf = ''%PDF-text''"

definition scanned_pdf :: pybytes where
  "scanned_pdf = ''%PDF-scanned''"

definition blank_pdf :: pybytes where
  "blank_pdf = ''%PDF-blank''"

definition feed_pdf :: pybytes where
  "feed_pdf = ''%PDF-feed''"

primrec finite_json :: "json \<Rightarrow> bool" where
  "finite_json JNull = True"
| "finite_json (JBool b) = True"
| "finite_json (JInt n) = True"
| "finite_json (JFloat x) = (case x of Finite m e \<Rightarrow> True | _ \<Rightarrow> False)"
| "finite_json (JStr s) = True"
| "finite_json (JArr vs) = list_all id (map finite_json vs)"
| "finite_json (JObj kvs) = list_all snd (map (map_prod id finite_json) kvs)"

definition object_reply :: pystr where
  \<open>object_reply = ascii ''{"Total_Errors": 0}''\<close>

definition array_reply :: pystr where
  "array_reply = ascii ''[]''"

definition string_reply :: pystr where
  \<open>string_reply = ascii ''"ok"''\<close>

definition number_reply :: pystr where
  "number_reply = ascii ''7''"

definition true_reply :: pystr where
  "true_reply = ascii ''true''"

definition null_reply :: pystr where
  "null_reply = ascii ''null''"

definition huge_number_reply :: pystr where
  "huge_number_reply = ascii ''1e999''"

definition huge_field_reply :: pystr where
  \<open>huge_field_reply = ascii ''{"Years_Short": 1e999}''\<close>

definition deep_reply :: pystr where
  "deep_reply = replicate 100000 91"

definition prose_reply :: pystr where
  "prose_reply = ascii ''Sorry, I cannot help with that.''"

definition surrogate_reply :: pystr where
  "surrogate_reply = [55296]"

definition surrogate_message :: pystr where
  "surrogate_message = ascii ''bad '' @ [55296]"

definition surrogate_at :: "string \<Rightarrow> string" where
  "surrogate_at pos =
     CHR 0x27 # ''utf-8'' @ CHR 0x27 # '' codec can'' @ CHR 0x27 # ''t encode character '' @
     CHR 0x27 # CHR 0x5C # ''ud800'' @ CHR 0x27 # '' in position '' @ pos @
     '': surrogates not allowed''"

definition sample_encode_error :: "(pystr \<times> pystr) list \<Rightarrow> string" where
  "sample_encode_error kvs =
     (if kvs = [(ascii ''error'', surrogate_message)] then surrogate_at ''14''
      else if kvs = [(ascii ''error'', ascii ''Gemini output is not valid JSON.''),
                     (ascii ''raw_response'', surrogate_reply)] then surrogate_at ''60''
      else ''surrogates not allowed'')"

definition sample_loads :: "pystr \<Rightarrow> exn + json" where
  "sample_loads s =
     (if s = object_reply then Inr (JObj [(ascii ''Total_Errors'', JInt 0)])
      else if s = array_reply then Inr (JArr [])
      else if s = string_reply then Inr (JStr (ascii ''ok''))
      else if s = number_reply then Inr (JInt 7)
      else if s = true_reply then Inr (JBool True)
      else if s = null_reply then Inr JNull
      else if s = huge_number_reply then Inr (JFloat PosInf)
      else if s = huge_field_reply then Inr (JObj [(ascii ''Years_Short'', JFloat PosInf)])
      else if s = deep_reply then
        Inl (OtherException (ascii
          ''maximum recursion depth exceeded while decoding a JSON array from a unicode string''))
      else Inl (JSONDecodeError (ascii ''Expecting value: line 1 column 1 (char 0)'')))"

definition sample_env :: "exn + pystr \<Rightarrow> (pystr option, pystr) env" where
  "sample_env reply =
     \<lparr>PdfReader = (\<lambda>data pos.
        if pos = 0 \<and> data = text_pdf then
          Inr [Some (ascii '' Jane Doe''), None, Some (ascii ''Python '')]
        else if pos = 0 \<and> data = scanned_pdf then Inr [None, Some (ascii '' '')]
        else if pos = 0 \<and> data = blank_pdf then Inr [None]
        else if pos = 0 \<and> data = feed_pdf then Inr [None]
        else Inl (OtherException (ascii ''EOF marker not found''))),
      reader_tell = length,
      extract_text = Inr,
      convert_from_bytes = (\<lambda>data.
        if data = scanned_pdf then Inr [ascii ''Jane '', ascii ''Doe'']
        else if data = blank_pdf then Inr [[]]
        else if data = feed_pdf then Inr [[12]]
        else Inl (OtherException (ascii ''Unable to get page count.''))),
      image_to_string = Inr,
      generate_content = (\<lambda>name cfg prompt. reply),
      json_loads = sample_loads,
      json_dumps_raises = (\<lambda>v.
        if finite_json v then None
        else Some ''Out of range float values are not JSON compliant''),
      encode_error = sample_encode_error\<rparr>"

definition job :: pystr where
  "job = ascii ''Python developer''"

definition text_pdf_text :: pystr where
  "text_pdf_text = ascii '' Jane Doe'' @ newline @ newline @ ascii ''Python ''"

definition not_a_pdf :: pybytes where
  "not_a_pdf = ''hello''"

section \<open>The loops\<close>

lemma page_texts_ok:
  "map (extract_text env) pages = map Inr ts \<Longrightarrow>
   page_texts env pages w =
     (Inr (map or_empty ts), w\<lparr>calls := calls w @ map ExtractText pages\<rparr>)"
proof (induction pages arbitrary: ts w)
  case Nil
  then show ?case by simp
next
  case (Cons p ps)
  then obtain t ts' where ts: "ts = t # ts'" by (cases ts) auto
  with Cons.prems have "extract_text env p = Inr t" "map (extract_text env) ps = map Inr ts'"
    by simp_all
  with Cons.IH [of ts'] ts show ?case by (simp add: log_def)
qed

lemma ocr_loop_ok:
  "map (image_to_string env) images = map Inr rs \<Longrightarrow>
   ocr_loop env images acc w =
     (Inr (acc @ concat rs), w\<lparr>calls := calls w @ map ImageToString images\<rparr>)"
proof (induction images arbitrary: rs acc w)
  case Nil
  then show ?case by simp
next
  case (Cons i imgs)
  then obtain r rs' where rs: "rs = r # rs'" by (cases rs) auto
  with Cons.prems have "image_to_string env i = Inr r" "map (image_to_string env) imgs = map Inr rs'"
    by simp_all
  with Cons.IH [of rs'] rs show ?case by (simp add: log_def)
qed

lemma open_reader_seek0:
  "open_reader env doc (seek0 w) =
     (PdfReader env doc 0,
      \<lparr>position = reader_tell env doc, calls = calls w @ [Seek 0, OpenReader]\<rparr>)"
  by (simp add: open_reader_def seek0_def log_def)

section \<open>The text-layer path\<close>

lemma text_layer_path:
  assumes "PdfReader env doc 0 = Inr pages"
    and "map (extract_text env) pages = map Inr ts"
    and "strip (join newline (map or_empty ts)) \<noteq> []"
  shows "extract_text_from_pdf env doc w =
           (Inr (join newline (map or_empty ts)),
            \<lparr>position = reader_tell env doc,
             calls = calls w @ Seek 0 # OpenReader # map ExtractText pages\<rparr>)"
  using assms by (simp add: extract_text_from_pdf_def open_reader_seek0 page_texts_ok)

text \<open>
  C1. When the reader opens the document, every page's text is extracted, and the texts
  joined by line breaks (a page without text counting as the empty string) are not all
  whitespace, \<open>extract_text_from_pdf\<close> returns exactly that joined string. The calls it
  makes are the rewind, the reader and one extraction per page, in page order: it never
  renders an image and never runs OCR.
\<close>

theorem extract_text_layer:
  assumes "PdfReader env doc 0 = Inr pages"
    and "map (extract_text env) pages = map Inr ts"
    and "strip (join newline (map or_empty ts)) \<noteq> []"
  shows "fst (extract_text_from_pdf env doc w) = Inr (join newline (map or_empty ts)) \<and>
         calls (snd (extract_text_from_pdf env doc w)) =
           calls w @ Seek 0 # OpenReader # map ExtractText pages \<and>
         filter ocr_path (calls (snd (extract_text_from_pdf env doc w))) =
           filter ocr_path (calls w)"
proof -
  have "filter ocr_path (map ExtractText pages) = []"
    by (induction pages) simp_all
  with text_layer_path [OF assms, of w] show ?thesis by simp
qed

theorem extract_text_layer_witness:
  "PdfReader (sample_env (Inr [])) text_pdf 0 =
     Inr [Some (ascii '' Jane Doe''), None, Some (ascii ''Python '')] \<and>
   map (extract_text (sample_env (Inr [])))
     [Some (ascii '' Jane Doe''), None, Some (ascii ''Python '')] =
     map Inr [Some (ascii '' Jane Doe''), None, Some (ascii ''Python '')] \<and>
   strip (join newline (map or_empty
     [Some (ascii '' Jane Doe''), None, Some (ascii ''Python '')])) \<noteq> [] \<and>
   fst (extract_text_from_pdf (sample_env (Inr [])) text_pdf fresh) =
     Inr (ascii '' Jane Doe'' @ newline @ newline @ ascii ''Python '') \<and>
   calls (snd (extract_text_from_pdf (sample_env (Inr [])) text_pdf fresh)) =
     [Seek 0, OpenReader, ExtractText (Some (ascii '' Jane Doe'')),
      ExtractText None, ExtractText (Some (ascii ''Python ''))]"
proof -
  have reader: "PdfReader (sample_env (Inr [])) text_pdf 0 =
      Inr [Some (ascii '' Jane Doe''), None, Some (ascii ''Python '')]"
    by (simp add: sample_env_def)
  have texts: "map (extract_text (sample_env (Inr [])))
      [Some (ascii '' Jane Doe''), None, Some (ascii ''Python '')] =
      map Inr [Some (ascii '' Jane Doe''), None, Some (ascii ''Python '')]"
    by (simp add: sample_env_def)
  have nonblank: "strip (join newline (map or_empty
      [Some (ascii '' Jane Doe''), None, Some (ascii ''Python '')])) \<noteq> []"
    by (simp add: strip_def ascii_def newline_def isspace_def)
  from extract_text_layer [OF reader texts nonblank, of fresh] reader texts nonblank
  show ?thesis by (simp add: fresh_def)
qed

section \<open>The OCR path\<close>

lemma ocr_loop_prefix:
  "prefix (calls w) (calls (snd (ocr_loop env images acc w)))"
proof (induction images arbitrary: acc w)
  case Nil
  show ?case by simp
next
  case (Cons i imgs)
  have "prefix (calls w) (calls (log (ImageToString i) w))"
    by (simp add: log_def)
  with Cons.IH [where w = "log (ImageToString i) w"] show ?case
    by (auto split: sum.splits intro: prefix_order.trans)
qed

lemma read_after_seek0:
  "read_stream doc (seek0 w) =
     (doc, \<lparr>position = length doc, calls = calls w @ [Seek 0, ReadStream]\<rparr>)"
  by (simp add: read_stream_def seek0_def log_def)

lemma ocr_path_run:
  assumes "PdfReader env doc 0 = Inr pages"
    and "map (extract_text env) pages = map Inr ts"
    and "strip (join newline (map or_empty ts)) = []"
  shows "extract_text_from_pdf env doc w =
     (case convert_from_bytes env doc of
        Inl e \<Rightarrow>
          (Inl e,
           \<lparr>position = length doc,
            calls = calls w @ Seek 0 # OpenReader # map ExtractText pages @
              [Seek 0, ReadStream, ConvertFromBytes doc]\<rparr>)
      | Inr images \<Rightarrow>
          ocr_loop env images []
            \<lparr>position = length doc,
             calls = calls w @ Seek 0 # OpenReader # map ExtractText pages @
               [Seek 0, ReadStream, ConvertFromBytes doc]\<rparr>)"
  using assms
  by (simp add: extract_text_from_pdf_def open_reader_seek0 page_texts_ok read_after_seek0
      log_def split: sum.splits)

text \<open>
  C2. When the reader opens the document, every page's text is extracted, and the joined
  texts are empty or all whitespace, \<open>extract_text_from_pdf\<close> rewinds the stream, reads
  it, and hands the whole document to the renderer: whatever happens next, its calls begin
  with these. When the renderer returns the page images and OCR reads each of them, the
  result is the recognised texts concatenated in page order, with no separator, after one
  OCR call per image in page order. The witness shows a document for which that result is
  the empty string.
\<close>

theorem extract_ocr_fallback:
  assumes "PdfReader env doc 0 = Inr pages"
    and "map (extract_text env) pages = map Inr ts"
    and "strip (join newline (map or_empty ts)) = []"
  shows "prefix
           (calls w @ Seek 0 # OpenReader # map ExtractText pages @
              [Seek 0, ReadStream, ConvertFromBytes doc])
           (calls (snd (extract_text_from_pdf env doc w))) \<and>
         (convert_from_bytes env doc = Inr images \<and>
          map (image_to_string env) images = map Inr rs \<longrightarrow>
            fst (extract_text_from_pdf env doc w) = Inr (concat rs) \<and>
            calls (snd (extract_text_from_pdf env doc w)) =
              calls w @ Seek 0 # OpenReader # map ExtractText pages @
                Seek 0 # ReadStream # ConvertFromBytes doc # map ImageToString images)"
proof (cases "convert_from_bytes env doc")
  case (Inl e)
  with ocr_path_run [OF assms, of w] show ?thesis by simp
next
  case (Inr imgs)
  let ?w = "\<lparr>position = length doc,
             calls = calls w @ Seek 0 # OpenReader # map ExtractText pages @
               [Seek 0, ReadStream, ConvertFromBytes doc]\<rparr>"
  from Inr ocr_path_run [OF assms, of w]
  have run: "extract_text_from_pdf env doc w = ocr_loop env imgs [] ?w"
    by simp
  have "prefix (calls ?w) (calls (snd (ocr_loop env imgs [] ?w)))"
    by (rule ocr_loop_prefix)
  with run Inr show ?thesis by (auto simp: ocr_loop_ok)
qed

theorem extract_ocr_fallback_witness:
  "PdfReader (sample_env (Inr [])) scanned_pdf 0 = Inr [None, Some (ascii '' '')] \<and>
   map (extract_text (sample_env (Inr []))) [None, Some (ascii '' '')] =
     map Inr [None, Some (ascii '' '')] \<and>
   strip (join newline (map or_empty [None, Some (ascii '' '')])) = [] \<and>
   convert_from_bytes (sample_env (Inr [])) scanned_pdf = Inr [ascii ''Jane '', ascii ''Doe''] \<and>
   map (image_to_string (sample_env (Inr []))) [ascii ''Jane '', ascii ''Doe''] =
     map Inr [ascii ''Jane '', ascii ''Doe''] \<and>
   fst (extract_text_from_pdf (sample_env (Inr [])) scanned_pdf fresh) =
     Inr (ascii ''Jane Doe'') \<and>
   calls (snd (extract_text_from_pdf (sample_env (Inr [])) scanned_pdf fresh)) =
     [Seek 0, OpenReader, ExtractText None, ExtractText (Some (ascii '' '')),
      Seek 0, ReadStream, ConvertFromBytes scanned_pdf,
      ImageToString (ascii ''Jane ''), ImageToString (ascii ''Doe'')] \<and>
   PdfReader (sample_env (Inr [])) blank_pdf 0 = Inr [None] \<and>
   strip (join newline (map or_empty [None])) = [] \<and>
   convert_from_bytes (sample_env (Inr [])) blank_pdf = Inr [[]] \<and>
   fst (extract_text_from_pdf (sample_env (Inr [])) blank_pdf fresh) = Inr []"
proof -
  have reader: "PdfReader (sample_env (Inr [])) scanned_pdf 0 = Inr [None, Some (ascii '' '')]"
    by (simp add: sample_env_def scanned_pdf_def text_pdf_def)
  have texts: "map (extract_text (sample_env (Inr []))) [None, Some (ascii '' '')] =
      map Inr [None, Some (ascii '' '')]"
    by (simp add: sample_env_def)
  have blank: "strip (join newline (map or_empty [None, Some (ascii '' '')])) = []"
    by (simp add: strip_def ascii_def newline_def isspace_def)
  have images: "convert_from_bytes (sample_env (Inr [])) scanned_pdf =
      Inr [ascii ''Jane '', ascii ''Doe'']"
    by (simp add: sample_env_def)
  have ocr: "map (image_to_string (sample_env (Inr []))) [ascii ''Jane '', ascii ''Doe''] =
      map Inr [ascii ''Jane '', ascii ''Doe'']"
    by (simp add: sample_env_def)
  have reader': "PdfReader (sample_env (Inr [])) blank_pdf 0 = Inr [None]"
    by (simp add: sample_env_def scanned_pdf_def text_pdf_def blank_pdf_def)
  have texts': "map (extract_text (sample_env (Inr []))) [None] = map Inr [None]"
    by (simp add: sample_env_def)
  have blank': "strip (join newline (map or_empty [None])) = []"
    by (simp add: strip_def)
  have images': "convert_from_bytes (sample_env (Inr [])) blank_pdf = Inr [[]]"
    by (simp add: sample_env_def scanned_pdf_def blank_pdf_def)
  have ocr': "map (image_to_string (sample_env (Inr []))) [[]] = map Inr [[]]"
    by (simp add: sample_env_def)
  from extract_ocr_fallback [OF reader texts blank, where w = fresh
      and images = "[ascii ''Jane '', ascii ''Doe'']" and rs = "[ascii ''Jane '', ascii ''Doe'']"]
    extract_ocr_fallback [OF reader' texts' blank', where w = fresh
      and images = "[[]]" and rs = "[[]]"]
    reader texts blank images ocr reader' blank' images' ocr'
  show ?thesis by (simp add: fresh_def ascii_def)
qed

section \<open>What a request's outcome depends on\<close>

lemma page_texts_fst:
  "fst (page_texts env pages w) = fst (page_texts env pages w')"
proof (induction pages arbitrary: w w')
  case Nil
  show ?case by simp
next
  case (Cons p ps)
  from Cons.IH [of "log (ExtractText p) w" "log (ExtractText p) w'"]
  show ?case by (auto split: sum.splits prod.splits)
qed

lemma page_texts_generate:
  "filter generate_call (calls (snd (page_texts env pages w))) = filter generate_call (calls w)"
proof (induction pages arbitrary: w)
  case Nil
  show ?case by simp
next
  case (Cons p ps)
  from Cons.IH [of "log (ExtractText p) w"]
  show ?case by (auto simp: log_def split: sum.splits prod.splits)
qed

lemma ocr_loop_fst:
  "fst (ocr_loop env images acc w) = fst (ocr_loop env images acc w')"
  by (induction images arbitrary: acc w w') (auto split: sum.splits)

lemma ocr_loop_generate:
  "filter generate_call (calls (snd (ocr_loop env images acc w))) = filter generate_call (calls w)"
  by (induction images arbitrary: acc w) (auto simp: log_def split: sum.splits)

text \<open>The outcome of the extraction does not depend on the world it starts in.\<close>

lemma extract_fst:
  "fst (extract_text_from_pdf env doc w) = fst (extract_text_from_pdf env doc w')"
proof (cases "PdfReader env doc 0")
  case (Inl e)
  then show ?thesis by (simp add: extract_text_from_pdf_def open_reader_seek0)
next
  case (Inr pages)
  let ?w1 = "\<lparr>position = reader_tell env doc, calls = calls w @ [Seek 0, OpenReader]\<rparr>"
  let ?w1' = "\<lparr>position = reader_tell env doc, calls = calls w' @ [Seek 0, OpenReader]\<rparr>"
  obtain r w2 where run: "page_texts env pages ?w1 = (r, w2)" by (cases "page_texts env pages ?w1")
  obtain r' w2' where run': "page_texts env pages ?w1' = (r', w2')"
    by (cases "page_texts env pages ?w1'")
  from run run' page_texts_fst [of env pages ?w1 ?w1'] have same: "r' = r" by simp
  show ?thesis
  proof (cases r)
    case (Inl e)
    with Inr run run' same show ?thesis
      by (simp add: extract_text_from_pdf_def open_reader_seek0)
  next
    case texts: (Inr texts)
    show ?thesis
    proof (cases "strip (join newline texts) \<noteq> []")
      case True
      with Inr run run' same texts show ?thesis
        by (simp add: extract_text_from_pdf_def open_reader_seek0)
    next
      case False
      with Inr run run' same texts show ?thesis
        using ocr_loop_fst
        by (auto simp add: extract_text_from_pdf_def open_reader_seek0 read_after_seek0
            split: sum.splits)
    qed
  qed
qed

lemma extract_generate:
  "filter generate_call (calls (snd (extract_text_from_pdf env doc w))) =
     filter generate_call (calls w)"
proof (cases "PdfReader env doc 0")
  case (Inl e)
  then show ?thesis by (simp add: extract_text_from_pdf_def open_reader_seek0)
next
  case (Inr pages)
  let ?w1 = "\<lparr>position = reader_tell env doc, calls = calls w @ [Seek 0, OpenReader]\<rparr>"
  obtain r w2 where run: "page_texts env pages ?w1 = (r, w2)" by (cases "page_texts env pages ?w1")
  with page_texts_generate [of env pages ?w1]
  have w2: "filter generate_call (calls w2) = filter generate_call (calls w)" by simp
  show ?thesis
  proof (cases r)
    case (Inl e)
    with Inr run w2 show ?thesis
      by (simp add: extract_text_from_pdf_def open_reader_seek0)
  next
    case texts: (Inr texts)
    show ?thesis
    proof (cases "strip (join newline texts) \<noteq> []")
      case True
      with Inr run w2 texts show ?thesis
        by (simp add: extract_text_from_pdf_def open_reader_seek0)
    next
      case False
      with Inr run w2 texts show ?thesis
        by (simp add: extract_text_from_pdf_def open_reader_seek0 read_after_seek0
            ocr_loop_generate log_def split: sum.splits)
    qed
  qed
qed

section \<open>The endpoint, by the outcome of the extraction\<close>

lemma encodable_ascii:
  "encodable (ascii s)"
proof -
  have "of_char c < (55296 :: nat)" for c :: char
    using nat_of_char_less_256 [of c] by linarith
  then show ?thesis
    by (simp add: encodable_def ascii_def list_all_iff)
qed

lemma JSONResponse_strs_status:
  "JSONResponse_strs env sc kvs = Inr r \<Longrightarrow> status_code r = sc"
  by (auto simp: JSONResponse_strs_def split: if_splits)

lemma error_response:
  "encodable m \<Longrightarrow>
   JSONResponse_strs env sc [(error_key, m)] =
     Inr \<lparr>status_code = sc, content = JObj [(error_key, JStr m)]\<rparr>"
  by (simp add: JSONResponse_strs_def error_key_def encodable_ascii)

lemma raw_response:
  "encodable raw \<Longrightarrow>
   JSONResponse_strs env sc [(error_key, invalid_json_message), (raw_response_key, raw)] =
     Inr \<lparr>status_code = sc,
          content = JObj [(error_key, JStr invalid_json_message), (raw_response_key, JStr raw)]\<rparr>"
  by (simp add: JSONResponse_strs_def error_key_def raw_response_key_def
      invalid_json_message_def encodable_ascii)

lemma analyze_extract_raises:
  "extract_text_from_pdf env doc w = (Inl e, w1) \<Longrightarrow>
   analyze_resume env doc jd w = (JSONResponse_strs env 500 [(error_key, str_exn e)], w1)"
  by (simp add: analyze_resume_def analyze_resume_try_def)

lemma analyze_unreadable:
  "extract_text_from_pdf env doc w = (Inr t, w1) \<Longrightarrow> strip t = [] \<Longrightarrow>
   analyze_resume env doc jd w =
     (Inr \<lparr>status_code = 400, content = JObj [(error_key, JStr unreadable_message)]\<rparr>, w1)"
  by (simp add: analyze_resume_def analyze_resume_try_def error_response
      unreadable_message_def encodable_ascii)

lemma analyze_forwarded:
  "extract_text_from_pdf env doc w = (Inr t, w1) \<Longrightarrow> strip t \<noteq> [] \<Longrightarrow>
   analyze_resume env doc jd w =
     (case generate_content env model_name config (input_prompt t jd) of
        Inl e \<Rightarrow>
          (JSONResponse_strs env 500 [(error_key, str_exn e)],
           log (GenerateContent (input_prompt t jd)) w1)
      | Inr raw \<Rightarrow>
          (case json_loads env raw of
             Inl (JSONDecodeError m) \<Rightarrow>
               (if encodable raw then
                  Inr \<lparr>status_code = 500,
                       content = JObj [(error_key, JStr invalid_json_message),
                                       (raw_response_key, JStr raw)]\<rparr>
                else
                  Inr \<lparr>status_code = 500,
                       content = JObj [(error_key, JStr (ascii (encode_error env
                         [(error_key, invalid_json_message), (raw_response_key, raw)])))]\<rparr>)
           | Inl (OtherException m) \<Rightarrow> JSONResponse_strs env 500 [(error_key, m)]
           | Inr v \<Rightarrow>
               (case json_dumps_raises env v of
                  Some m \<Rightarrow> Inr \<lparr>status_code = 500, content = JObj [(error_key, JStr (ascii m))]\<rparr>
                | None \<Rightarrow> Inr \<lparr>status_code = 200, content = v\<rparr>),
           log (JsonLoads raw) (log (GenerateContent (input_prompt t jd)) w1)))"
proof -
  have undecodable: "\<not> encodable raw \<Longrightarrow>
      JSONResponse_strs env 500 [(error_key, invalid_json_message), (raw_response_key, raw)] =
      Inl (OtherException (ascii (encode_error env
        [(error_key, invalid_json_message), (raw_response_key, raw)])))" for raw
    by (simp add: JSONResponse_strs_def)
  assume "extract_text_from_pdf env doc w = (Inr t, w1)" and "strip t \<noteq> []"
  then show ?thesis
    by (auto simp add: analyze_resume_def analyze_resume_try_def JSONResponse_def
        get_gemini_response_def raw_response undecodable error_response encodable_ascii
        split: sum.splits exn.splits option.splits)
qed

section \<open>The sample documents, extracted\<close>

lemma sample_text_pdf:
  "extract_text_from_pdf (sample_env reply) text_pdf w =
     (Inr text_pdf_text,
      \<lparr>position = 9,
       calls = calls w @ [Seek 0, OpenReader, ExtractText (Some (ascii '' Jane Doe'')),
                          ExtractText None, ExtractText (Some (ascii ''Python ''))]\<rparr>)"
proof -
  have reader: "PdfReader (sample_env reply) text_pdf 0 =
      Inr [Some (ascii '' Jane Doe''), None, Some (ascii ''Python '')]"
    by (simp add: sample_env_def)
  have texts: "map (extract_text (sample_env reply))
      [Some (ascii '' Jane Doe''), None, Some (ascii ''Python '')] =
      map Inr [Some (ascii '' Jane Doe''), None, Some (ascii ''Python '')]"
    by (simp add: sample_env_def)
  have nonblank: "strip (join newline (map or_empty
      [Some (ascii '' Jane Doe''), None, Some (ascii ''Python '')])) \<noteq> []"
    by (simp add: strip_def ascii_def newline_def isspace_def)
  have "reader_tell (sample_env reply) text_pdf = 9"
    by (simp add: sample_env_def text_pdf_def)
  with text_layer_path [OF reader texts nonblank, of w] show ?thesis
    by (simp add: text_pdf_text_def)
qed

lemma text_pdf_text_strip:
  "strip text_pdf_text = ascii ''Jane Doe'' @ newline @ newline @ ascii ''Python''"
  by (simp add: text_pdf_text_def strip_def ascii_def newline_def isspace_def)

lemma sample_one_page_scan:
  assumes "convert_from_bytes (sample_env reply) doc = Inr [r]"
    and "PdfReader (sample_env reply) doc 0 = Inr [None]"
  shows "extract_text_from_pdf (sample_env reply) doc w =
     (Inr r,
      \<lparr>position = length doc,
       calls = calls w @ [Seek 0, OpenReader, ExtractText None, Seek 0, ReadStream,
                          ConvertFromBytes doc, ImageToString r]\<rparr>)"
proof -
  have texts: "map (extract_text (sample_env reply)) [None] = map Inr [None]"
    by (simp add: sample_env_def)
  have blank: "strip (join newline (map or_empty [None])) = []"
    by (simp add: strip_def)
  have "image_to_string (sample_env reply) r = Inr r"
    by (simp add: sample_env_def)
  with ocr_path_run [OF assms(2) texts blank, of w] assms(1) show ?thesis
    by (simp add: log_def)
qed

lemma sample_blank_pdf:
  "extract_text_from_pdf (sample_env reply) blank_pdf w =
     (Inr [],
      \<lparr>position = 10,
       calls = calls w @ [Seek 0, OpenReader, ExtractText None, Seek 0, ReadStream,
                          ConvertFromBytes blank_pdf, ImageToString []]\<rparr>)"
proof -
  have "convert_from_bytes (sample_env reply) blank_pdf = Inr [[]]"
    by (simp add: sample_env_def scanned_pdf_def blank_pdf_def)
  moreover have "PdfReader (sample_env reply) blank_pdf 0 = Inr [None]"
    by (simp add: sample_env_def scanned_pdf_def text_pdf_def blank_pdf_def)
  ultimately show ?thesis
    using sample_one_page_scan [of reply blank_pdf "[]" w] by (simp add: blank_pdf_def)
qed

lemma sample_feed_pdf:
  "extract_text_from_pdf (sample_env reply) feed_pdf w =
     (Inr [12],
      \<lparr>position = 9,
       calls = calls w @ [Seek 0, OpenReader, ExtractText None, Seek 0, ReadStream,
                          ConvertFromBytes feed_pdf, ImageToString [12]]\<rparr>)"
proof -
  have "convert_from_bytes (sample_env reply) feed_pdf = Inr [[12]]"
    by (simp add: sample_env_def scanned_pdf_def blank_pdf_def feed_pdf_def)
  moreover have "PdfReader (sample_env reply) feed_pdf 0 = Inr [None]"
    by (simp add: sample_env_def scanned_pdf_def text_pdf_def blank_pdf_def feed_pdf_def)
  ultimately show ?thesis
    using sample_one_page_scan [of reply feed_pdf "[12]" w] by (simp add: feed_pdf_def)
qed

lemma sample_not_a_pdf:
  "extract_text_from_pdf (sample_env reply) not_a_pdf w =
     (Inl (OtherException (ascii ''EOF marker not found'')),
      \<lparr>position = 5, calls = calls w @ [Seek 0, OpenReader]\<rparr>)"
  by (simp add: extract_text_from_pdf_def open_reader_seek0 sample_env_def not_a_pdf_def
      text_pdf_def scanned_pdf_def blank_pdf_def feed_pdf_def)

lemma sample_reply:
  "generate_content (sample_env reply) name cfg prompt = reply"
  by (simp add: sample_env_def)

lemma deep_reply_differs:
  "length s \<noteq> 100000 \<Longrightarrow> s \<noteq> deep_reply"
  "length s \<noteq> 100000 \<Longrightarrow> deep_reply \<noteq> s"
  by (auto simp: deep_reply_def)

lemma sample_loads_values:
  "json_loads (sample_env reply) object_reply = Inr (JObj [(ascii ''Total_Errors'', JInt 0)])"
  "json_loads (sample_env reply) array_reply = Inr (JArr [])"
  "json_loads (sample_env reply) string_reply = Inr (JStr (ascii ''ok''))"
  "json_loads (sample_env reply) number_reply = Inr (JInt 7)"
  "json_loads (sample_env reply) true_reply = Inr (JBool True)"
  "json_loads (sample_env reply) null_reply = Inr JNull"
  "json_loads (sample_env reply) huge_number_reply = Inr (JFloat PosInf)"
  "json_loads (sample_env reply) huge_field_reply =
     Inr (JObj [(ascii ''Years_Short'', JFloat PosInf)])"
  by (simp_all add: sample_env_def sample_loads_def object_reply_def array_reply_def
      string_reply_def number_reply_def true_reply_def null_reply_def huge_number_reply_def
      huge_field_reply_def ascii_def)

lemma sample_loads_deep:
  "json_loads (sample_env reply) deep_reply =
     Inl (OtherException (ascii
       ''maximum recursion depth exceeded while decoding a JSON array from a unicode string''))"
  by (simp add: sample_env_def sample_loads_def object_reply_def array_reply_def
      string_reply_def number_reply_def true_reply_def null_reply_def huge_number_reply_def
      huge_field_reply_def deep_reply_differs ascii_def)

lemma sample_loads_prose:
  "json_loads (sample_env reply) prose_reply =
     Inl (JSONDecodeError (ascii ''Expecting value: line 1 column 1 (char 0)''))"
  by (simp add: sample_env_def sample_loads_def object_reply_def array_reply_def
      string_reply_def number_reply_def true_reply_def null_reply_def huge_number_reply_def
      huge_field_reply_def deep_reply_differs prose_reply_def ascii_def)

lemma sample_loads_surrogate:
  "json_loads (sample_env reply) surrogate_reply =
     Inl (JSONDecodeError (ascii ''Expecting value: line 1 column 1 (char 0)''))"
  by (simp add: sample_env_def sample_loads_def object_reply_def array_reply_def
      string_reply_def number_reply_def true_reply_def null_reply_def huge_number_reply_def
      huge_field_reply_def deep_reply_differs surrogate_reply_def ascii_def)

lemma sample_dumps:
  "json_dumps_raises (sample_env reply) v =
     (if finite_json v then None
      else Some ''Out of range float values are not JSON compliant'')"
  by (simp add: sample_env_def)

lemma sample_encode_error_values:
  "encode_error (sample_env reply) [(error_key, surrogate_message)] = surrogate_at ''14''"
  "encode_error (sample_env reply)
     [(error_key, invalid_json_message), (raw_response_key, surrogate_reply)] =
     surrogate_at ''60''"
  by (simp_all add: sample_env_def sample_encode_error_def error_key_def raw_response_key_def
      invalid_json_message_def)

lemma surrogates_not_encodable:
  "\<not> encodable surrogate_reply"
  "\<not> encodable surrogate_message"
  by (simp_all add: encodable_def surrogate_reply_def surrogate_message_def)

lemma text_pdf_text_nonblank:
  "strip text_pdf_text \<noteq> []"
  by (simp add: text_pdf_text_strip ascii_def)

section \<open>Properties of the endpoint\<close>

text \<open>
  C3. The handler returns a response with status 400 exactly when the extraction returns a
  string that is empty or all whitespace. In that case the body is the object with the
  single key \<open>error\<close> and the fixed message, the world after the request is the world
  after the extraction, and no call to the generation service is added to the log.
\<close>

theorem unreadable_document:
  "(case fst (analyze_resume env doc jd w) of Inl e \<Rightarrow> False | Inr r \<Rightarrow> status_code r = 400) =
     (case fst (extract_text_from_pdf env doc w) of Inl e \<Rightarrow> False | Inr t \<Rightarrow> strip t = []) \<and>
   (fst (extract_text_from_pdf env doc w) = Inr t \<and> strip t = [] \<longrightarrow>
      fst (analyze_resume env doc jd w) =
        Inr \<lparr>status_code = 400, content = JObj [(error_key, JStr unreadable_message)]\<rparr> \<and>
      (case fst (analyze_resume env doc jd w) of
         Inl e \<Rightarrow> False
       | Inr r \<Rightarrow> error_key \<in> set (json_keys (content r))) \<and>
      snd (analyze_resume env doc jd w) = snd (extract_text_from_pdf env doc w) \<and>
      filter generate_call (calls (snd (analyze_resume env doc jd w))) =
        filter generate_call (calls w))"
proof -
  obtain r w1 where run: "extract_text_from_pdf env doc w = (r, w1)"
    by (cases "extract_text_from_pdf env doc w")
  from extract_generate [of env doc w] run
  have quiet: "filter generate_call (calls w1) = filter generate_call (calls w)" by simp
  have other: "(case JSONResponse_strs env 500 kvs of Inl e \<Rightarrow> False
      | Inr r \<Rightarrow> status_code r = 400) = False" for kvs
    by (auto simp: JSONResponse_strs_def)
  have other': "JSONResponse_strs env 500 kvs = Inr x \<Longrightarrow> status_code x \<noteq> 400" for kvs x
    by (auto dest: JSONResponse_strs_status)
  show ?thesis
  proof (cases r)
    case (Inl e)
    with run analyze_extract_raises [of env doc w e w1 jd] other show ?thesis by simp
  next
    case (Inr t')
    show ?thesis
    proof (cases "strip t' = []")
      case True
      with Inr run quiet analyze_unreadable [of env doc w t' w1 jd] show ?thesis by simp
    next
      case False
      with Inr run analyze_forwarded [of env doc w t' w1 jd]
      have "(case fst (analyze_resume env doc jd w) of Inl e \<Rightarrow> False
          | Inr r \<Rightarrow> status_code r = 400) = False"
        by (auto split: sum.splits exn.splits option.splits if_splits dest: other')
      with Inr run False show ?thesis by auto
    qed
  qed
qed

theorem unreadable_document_witness:
  "fst (extract_text_from_pdf (sample_env (Inr object_reply)) blank_pdf fresh) = Inr [] \<and>
   strip [] = ([] :: pystr) \<and>
   fst (analyze_resume (sample_env (Inr object_reply)) blank_pdf job fresh) =
     Inr \<lparr>status_code = 400, content = JObj [(error_key, JStr unreadable_message)]\<rparr> \<and>
   filter generate_call
     (calls (snd (analyze_resume (sample_env (Inr object_reply)) blank_pdf job fresh))) = [] \<and>
   fst (extract_text_from_pdf (sample_env (Inr object_reply)) feed_pdf fresh) = Inr [12] \<and>
   strip [12] = ([] :: pystr) \<and>
   fst (analyze_resume (sample_env (Inr object_reply)) feed_pdf job fresh) =
     Inr \<lparr>status_code = 400, content = JObj [(error_key, JStr unreadable_message)]\<rparr> \<and>
   fst (analyze_resume (sample_env (Inr object_reply)) text_pdf job fresh) \<noteq>
     Inr \<lparr>status_code = 400, content = JObj [(error_key, JStr unreadable_message)]\<rparr>"
proof -
  have ext: "fst (extract_text_from_pdf (sample_env (Inr object_reply)) blank_pdf fresh) = Inr []"
    by (simp add: sample_blank_pdf)
  have blank: "strip [] = ([] :: pystr)"
    by (simp add: strip_def)
  have ext': "fst (extract_text_from_pdf (sample_env (Inr object_reply)) feed_pdf fresh) = Inr [12]"
    by (simp add: sample_feed_pdf)
  have blank': "strip [12] = ([] :: pystr)"
    by (simp add: strip_def isspace_def)
  have ext'': "fst (extract_text_from_pdf (sample_env (Inr object_reply)) text_pdf fresh) =
      Inr text_pdf_text"
    by (simp add: sample_text_pdf)
  from unreadable_document [of "sample_env (Inr object_reply)" text_pdf job fresh "[]"]
    ext'' text_pdf_text_nonblank
  have "fst (analyze_resume (sample_env (Inr object_reply)) text_pdf job fresh) \<noteq>
      Inr \<lparr>status_code = 400, content = JObj [(error_key, JStr unreadable_message)]\<rparr>"
    by (auto split: sum.splits)
  with unreadable_document [of "sample_env (Inr object_reply)" blank_pdf job fresh "[]"]
    unreadable_document [of "sample_env (Inr object_reply)" feed_pdf job fresh "[12]"]
    ext blank ext' blank'
  show ?thesis by (simp add: fresh_def extract_generate)
qed

text \<open>
  C4. The claim holds of the intended path and fails on two inputs. A service text that
  \<open>json.loads\<close> rejects with \<open>JSONDecodeError\<close> and that can be encoded gets the 500
  response with \<open>error\<close> and \<open>raw_response\<close> (first line). A hundred thousand opening
  brackets make \<open>json.loads\<close> fail with \<open>RecursionError\<close>, which the clause
  \<open>except json.JSONDecodeError\<close> does not catch: the response has the key \<open>error\<close> alone.
  A lone surrogate is rejected with \<open>JSONDecodeError\<close>, but building the \<open>raw_response\<close>
  body raises \<open>UnicodeEncodeError\<close>, and the response again has the key \<open>error\<close> alone.
\<close>

theorem malformed_output_without_raw_response:
  "fst (analyze_resume (sample_env (Inr prose_reply)) text_pdf job fresh) =
     Inr \<lparr>status_code = 500,
          content = JObj [(error_key, JStr invalid_json_message),
                          (raw_response_key, JStr prose_reply)]\<rparr> \<and>
   json_loads (sample_env (Inr deep_reply)) deep_reply =
     Inl (OtherException (ascii
       ''maximum recursion depth exceeded while decoding a JSON array from a unicode string'')) \<and>
   fst (analyze_resume (sample_env (Inr deep_reply)) text_pdf job fresh) =
     Inr \<lparr>status_code = 500,
          content = JObj [(error_key, JStr (ascii
            ''maximum recursion depth exceeded while decoding a JSON array from a unicode string''))]\<rparr> \<and>
   json_loads (sample_env (Inr surrogate_reply)) surrogate_reply =
     Inl (JSONDecodeError (ascii ''Expecting value: line 1 column 1 (char 0)'')) \<and>
   fst (analyze_resume (sample_env (Inr surrogate_reply)) text_pdf job fresh) =
     Inr \<lparr>status_code = 500,
          content = JObj [(error_key, JStr (ascii (surrogate_at ''60'')))]\<rparr>"
proof -
  note run = analyze_forwarded [OF sample_text_pdf text_pdf_text_nonblank,
      where jd = job and w = fresh]
  have "encodable prose_reply"
    by (simp add: prose_reply_def encodable_ascii)
  with run [of "Inr prose_reply"]
  have one: "fst (analyze_resume (sample_env (Inr prose_reply)) text_pdf job fresh) =
     Inr \<lparr>status_code = 500,
          content = JObj [(error_key, JStr invalid_json_message),
                          (raw_response_key, JStr prose_reply)]\<rparr>"
    by (simp add: sample_reply sample_loads_prose)
  have "encodable (ascii
      ''maximum recursion depth exceeded while decoding a JSON array from a unicode string'')"
    by (rule encodable_ascii)
  with run [of "Inr deep_reply"]
  have two: "fst (analyze_resume (sample_env (Inr deep_reply)) text_pdf job fresh) =
     Inr \<lparr>status_code = 500,
          content = JObj [(error_key, JStr (ascii
            ''maximum recursion depth exceeded while decoding a JSON array from a unicode string''))]\<rparr>"
    by (simp add: sample_reply sample_loads_deep error_response)
  from run [of "Inr surrogate_reply"]
  have three: "fst (analyze_resume (sample_env (Inr surrogate_reply)) text_pdf job fresh) =
     Inr \<lparr>status_code = 500,
          content = JObj [(error_key, JStr (ascii (surrogate_at ''60'')))]\<rparr>"
    by (simp add: sample_reply sample_loads_surrogate surrogates_not_encodable
        sample_encode_error_values)
  from one two three show ?thesis
    by (simp add: sample_loads_deep sample_loads_surrogate)
qed

text \<open>
  C5, as amended. When the extracted text is not all whitespace, the service returns a
  text and \<open>json.loads\<close> returns a value \<open>v\<close> for it, the response is decided by the
  serialiser alone: if it accepts \<open>v\<close>, the response has status 200 and its body is exactly
  \<open>v\<close>, with no other check on \<open>v\<close>; if it raises, the response has status 500 and the
  body \<open>{"error": str(e)}\<close>.
\<close>

theorem parsed_output:
  assumes "fst (extract_text_from_pdf env doc w) = Inr t"
    and "strip t \<noteq> []"
    and "generate_content env model_name config (input_prompt t jd) = Inr raw"
    and "json_loads env raw = Inr v"
  shows "fst (analyze_resume env doc jd w) =
           (case json_dumps_raises env v of
              None \<Rightarrow> Inr \<lparr>status_code = 200, content = v\<rparr>
            | Some m \<Rightarrow> Inr \<lparr>status_code = 500, content = JObj [(error_key, JStr (ascii m))]\<rparr>)"
proof -
  from assms(1) have "extract_text_from_pdf env doc w =
      (Inr t, snd (extract_text_from_pdf env doc w))"
    by (metis prod.collapse)
  from analyze_forwarded [OF this assms(2), of jd] assms(3,4) show ?thesis
    by (simp split: option.splits)
qed

theorem parsed_output_witness:
  "fst (extract_text_from_pdf (sample_env (Inr object_reply)) text_pdf fresh) =
     Inr text_pdf_text \<and>
   strip text_pdf_text \<noteq> [] \<and>
   generate_content (sample_env (Inr object_reply)) model_name config
     (input_prompt text_pdf_text job) = Inr object_reply \<and>
   json_loads (sample_env (Inr object_reply)) object_reply =
     Inr (JObj [(ascii ''Total_Errors'', JInt 0)]) \<and>
   fst (analyze_resume (sample_env (Inr object_reply)) text_pdf job fresh) =
     Inr \<lparr>status_code = 200, content = JObj [(ascii ''Total_Errors'', JInt 0)]\<rparr>"
proof -
  have ext: "fst (extract_text_from_pdf (sample_env (Inr object_reply)) text_pdf fresh) =
      Inr text_pdf_text"
    by (simp add: sample_text_pdf)
  have gen: "generate_content (sample_env (Inr object_reply)) model_name config
      (input_prompt text_pdf_text job) = Inr object_reply"
    by (rule sample_reply)
  have loads: "json_loads (sample_env (Inr object_reply)) object_reply =
      Inr (JObj [(ascii ''Total_Errors'', JInt 0)])"
    by (rule sample_loads_values)
  from parsed_output [OF ext text_pdf_text_nonblank gen loads] ext text_pdf_text_nonblank
    gen loads
  show ?thesis by (simp add: sample_dumps)
qed

text \<open>
  The claim as stated fails: the service text \<open>{"Years_Short": 1e999}\<close> parses, to a
  dict holding the float \<open>inf\<close>, and the response is a 500 whose body is an error
  message, not a 200 with the parsed value.
\<close>

theorem parsed_output_counterexample:
  "fst (extract_text_from_pdf (sample_env (Inr huge_field_reply)) text_pdf fresh) =
     Inr text_pdf_text \<and>
   strip text_pdf_text \<noteq> [] \<and>
   generate_content (sample_env (Inr huge_field_reply)) model_name config
     (input_prompt text_pdf_text job) = Inr huge_field_reply \<and>
   json_loads (sample_env (Inr huge_field_reply)) huge_field_reply =
     Inr (JObj [(ascii ''Years_Short'', JFloat PosInf)]) \<and>
   fst (analyze_resume (sample_env (Inr huge_field_reply)) text_pdf job fresh) =
     Inr \<lparr>status_code = 500,
          content = JObj [(error_key,
            JStr (ascii ''Out of range float values are not JSON compliant''))]\<rparr> \<and>
   fst (analyze_resume (sample_env (Inr huge_field_reply)) text_pdf job fresh) \<noteq>
     Inr \<lparr>status_code = 200, content = JObj [(ascii ''Years_Short'', JFloat PosInf)]\<rparr>"
proof -
  have gen: "generate_content (sample_env (Inr huge_field_reply)) model_name config
      (input_prompt text_pdf_text job) = Inr huge_field_reply"
    by (rule sample_reply)
  have loads: "json_loads (sample_env (Inr huge_field_reply)) huge_field_reply =
      Inr (JObj [(ascii ''Years_Short'', JFloat PosInf)])"
    by (rule sample_loads_values)
  from analyze_forwarded [OF sample_text_pdf text_pdf_text_nonblank,
      of "Inr huge_field_reply" job fresh] gen loads
  have "fst (analyze_resume (sample_env (Inr huge_field_reply)) text_pdf job fresh) =
     Inr \<lparr>status_code = 500,
          content = JObj [(error_key,
            JStr (ascii ''Out of range float values are not JSON compliant''))]\<rparr>"
    by (simp add: sample_dumps)
  with gen loads text_pdf_text_nonblank show ?thesis
    by (simp add: sample_text_pdf)
qed

text \<open>
  C6. The claim fails where the message of the exception cannot be encoded. When the
  service call raises an exception whose message holds a lone surrogate, the \<open>except\<close>
  clause builds \<open>{"error": str(e)}\<close>, the response's constructor raises
  \<open>UnicodeEncodeError\<close>, and that exception leaves the handler: the handler returns no
  JSON response at all. With a message that can be encoded, an exception of the service
  or of the extraction gives the 500 response with \<open>{"error": str(e)}\<close> (last two lines).
\<close>

theorem handler_raises_on_surrogate_message:
  "generate_content (sample_env (Inl (OtherException surrogate_message))) model_name config
     (input_prompt text_pdf_text job) = Inl (OtherException surrogate_message) \<and>
   fst (analyze_resume (sample_env (Inl (OtherException surrogate_message))) text_pdf job
     fresh) = Inl (OtherException (ascii (surrogate_at ''14''))) \<and>
   fst (analyze_resume (sample_env (Inl (OtherException (ascii ''503 UNAVAILABLE''))))
     text_pdf job fresh) =
     Inr \<lparr>status_code = 500, content = JObj [(error_key, JStr (ascii ''503 UNAVAILABLE''))]\<rparr> \<and>
   fst (analyze_resume (sample_env (Inr object_reply)) not_a_pdf job fresh) =
     Inr \<lparr>status_code = 500, content = JObj [(error_key, JStr (ascii ''EOF marker not found''))]\<rparr>"
proof -
  note run = analyze_forwarded [OF sample_text_pdf text_pdf_text_nonblank,
      where jd = job and w = fresh]
  from run [of "Inl (OtherException surrogate_message)"]
  have one: "fst (analyze_resume (sample_env (Inl (OtherException surrogate_message))) text_pdf
      job fresh) = Inl (OtherException (ascii (surrogate_at ''14'')))"
    by (simp add: sample_reply JSONResponse_strs_def surrogates_not_encodable
        sample_encode_error_values)
  have "encodable (ascii ''503 UNAVAILABLE'')"
    by (rule encodable_ascii)
  with run [of "Inl (OtherException (ascii ''503 UNAVAILABLE''))"]
  have two: "fst (analyze_resume (sample_env (Inl (OtherException (ascii ''503 UNAVAILABLE''))))
      text_pdf job fresh) =
      Inr \<lparr>status_code = 500, content = JObj [(error_key, JStr (ascii ''503 UNAVAILABLE''))]\<rparr>"
    by (simp add: sample_reply error_response)
  have "encodable (ascii ''EOF marker not found'')"
    by (rule encodable_ascii)
  with analyze_extract_raises [OF sample_not_a_pdf [of "Inr object_reply" fresh], of job]
  have three: "fst (analyze_resume (sample_env (Inr object_reply)) not_a_pdf job fresh) =
      Inr \<lparr>status_code = 500, content = JObj [(error_key, JStr (ascii ''EOF marker not found''))]\<rparr>"
    by (simp add: error_response)
  from one two three show ?thesis by (simp add: sample_reply)
qed




text \<open>
  C8. The response to a request is a function of the libraries' behaviour, the document
  bytes and the job description: it does not depend on where the upload's stream stands
  nor on what was called before.
\<close>

theorem deterministic_response:
  "fst (analyze_resume env doc jd w) = fst (analyze_resume env doc jd w')"
proof -
  obtain r w1 where run: "extract_text_from_pdf env doc w = (r, w1)"
    by (cases "extract_text_from_pdf env doc w")
  obtain r' w1' where run': "extract_text_from_pdf env doc w' = (r', w1')"
    by (cases "extract_text_from_pdf env doc w'")
  from run run' extract_fst [of env doc w w'] have same: "r' = r" by simp
  show ?thesis
  proof (cases r)
    case (Inl e)
    with run run' same analyze_extract_raises [of env doc w e w1 jd]
      analyze_extract_raises [of env doc w' e w1' jd]
    show ?thesis by simp
  next
    case (Inr t)
    show ?thesis
    proof (cases "strip t = []")
      case True
      with Inr run run' same analyze_unreadable [of env doc w t w1 jd]
        analyze_unreadable [of env doc w' t w1' jd]
      show ?thesis by simp
    next
      case False
      with Inr run run' same analyze_forwarded [of env doc w t w1 jd]
        analyze_forwarded [of env doc w' t w1' jd]
      show ?thesis by (simp split: sum.splits exn.splits option.splits)
    qed
  qed
qed

text \<open>
  C9. When the text layer is used, \<open>extract_text_from_pdf\<close> returns the joined text as
  it is, not its \<open>strip()\<close>, and that same untrimmed text is what the prompt sent to the
  service holds. The witness has a text that begins and ends with a space.
\<close>

theorem text_layer_untrimmed:
  assumes "PdfReader env doc 0 = Inr pages"
    and "map (extract_text env) pages = map Inr ts"
    and "strip (join newline (map or_empty ts)) \<noteq> []"
  shows "fst (extract_text_from_pdf env doc w) = Inr (join newline (map or_empty ts)) \<and>
         filter generate_call (calls (snd (analyze_resume env doc jd w))) =
           filter generate_call (calls w) @
             [GenerateContent (input_prompt (join newline (map or_empty ts)) jd)]"
proof -
  note run = text_layer_path [OF assms, of w]
  have "filter generate_call (map ExtractText pages) = []"
    by (induction pages) simp_all
  with analyze_forwarded [OF run assms(3), of jd] run show ?thesis
    by (simp add: log_def split: sum.splits)
qed

theorem text_layer_untrimmed_witness:
  "PdfReader (sample_env (Inr object_reply)) text_pdf 0 =
     Inr [Some (ascii '' Jane Doe''), None, Some (ascii ''Python '')] \<and>
   map (extract_text (sample_env (Inr object_reply)))
     [Some (ascii '' Jane Doe''), None, Some (ascii ''Python '')] =
     map Inr [Some (ascii '' Jane Doe''), None, Some (ascii ''Python '')] \<and>
   strip (join newline (map or_empty
     [Some (ascii '' Jane Doe''), None, Some (ascii ''Python '')])) \<noteq> [] \<and>
   fst (extract_text_from_pdf (sample_env (Inr object_reply)) text_pdf fresh) =
     Inr (32 # ascii ''Jane Doe'' @ newline @ newline @ ascii ''Python'' @ [32]) \<and>
   strip (32 # ascii ''Jane Doe'' @ newline @ newline @ ascii ''Python'' @ [32]) =
     ascii ''Jane Doe'' @ newline @ newline @ ascii ''Python'' \<and>
   filter generate_call
     (calls (snd (analyze_resume (sample_env (Inr object_reply)) text_pdf job fresh))) =
     [GenerateContent
        (input_prompt (32 # ascii ''Jane Doe'' @ newline @ newline @ ascii ''Python'' @ [32])
           job)]"
proof -
  have reader: "PdfReader (sample_env (Inr object_reply)) text_pdf 0 =
      Inr [Some (ascii '' Jane Doe''), None, Some (ascii ''Python '')]"
    by (simp add: sample_env_def)
  have texts: "map (extract_text (sample_env (Inr object_reply)))
      [Some (ascii '' Jane Doe''), None, Some (ascii ''Python '')] =
      map Inr [Some (ascii '' Jane Doe''), None, Some (ascii ''Python '')]"
    by (simp add: sample_env_def)
  have nonblank: "strip (join newline (map or_empty
      [Some (ascii '' Jane Doe''), None, Some (ascii ''Python '')])) \<noteq> []"
    by (simp add: strip_def ascii_def newline_def isspace_def)
  have joined: "join newline (map or_empty
      [Some (ascii '' Jane Doe''), None, Some (ascii ''Python '')]) =
      32 # ascii ''Jane Doe'' @ newline @ newline @ ascii ''Python'' @ [32]"
    by (simp add: ascii_def)
  have trimmed: "strip (32 # ascii ''Jane Doe'' @ newline @ newline @ ascii ''Python'' @ [32]) =
      ascii ''Jane Doe'' @ newline @ newline @ ascii ''Python''"
    by (simp add: strip_def ascii_def newline_def isspace_def)
  from text_layer_untrimmed [OF reader texts nonblank, of fresh job] reader texts nonblank
    trimmed
  show ?thesis by (simp only: joined fresh_def) simp
qed

text \<open>
  C10, as amended. The success path puts no condition on the shape of the parsed value:
  whatever value \<open>json.loads\<close> returns (an object, an array, a string, a number, a boolean
  or \<open>None\<close>), if the serialiser accepts it the response has status 200 and that value as
  its body.
\<close>

theorem any_json_shape:
  assumes "fst (extract_text_from_pdf env doc w) = Inr t"
    and "strip t \<noteq> []"
    and "generate_content env model_name config (input_prompt t jd) = Inr raw"
    and "json_loads env raw = Inr v"
    and "json_dumps_raises env v = None"
  shows "fst (analyze_resume env doc jd w) = Inr \<lparr>status_code = 200, content = v\<rparr>"
proof -
  from assms(1) have "extract_text_from_pdf env doc w =
      (Inr t, snd (extract_text_from_pdf env doc w))"
    by (metis prod.collapse)
  from analyze_forwarded [OF this assms(2), of jd] assms(3,4,5) show ?thesis by simp
qed

theorem any_json_shape_witness:
  "fst (extract_text_from_pdf (sample_env (Inr array_reply)) text_pdf fresh) =
     Inr text_pdf_text \<and>
   strip text_pdf_text \<noteq> [] \<and>
   generate_content (sample_env (Inr array_reply)) model_name config
     (input_prompt text_pdf_text job) = Inr array_reply \<and>
   json_loads (sample_env (Inr array_reply)) array_reply = Inr (JArr []) \<and>
   json_dumps_raises (sample_env (Inr array_reply)) (JArr []) = None \<and>
   fst (analyze_resume (sample_env (Inr array_reply)) text_pdf job fresh) =
     Inr \<lparr>status_code = 200, content = JArr []\<rparr> \<and>
   fst (analyze_resume (sample_env (Inr string_reply)) text_pdf job fresh) =
     Inr \<lparr>status_code = 200, content = JStr (ascii ''ok'')\<rparr> \<and>
   fst (analyze_resume (sample_env (Inr number_reply)) text_pdf job fresh) =
     Inr \<lparr>status_code = 200, content = JInt 7\<rparr> \<and>
   fst (analyze_resume (sample_env (Inr true_reply)) text_pdf job fresh) =
     Inr \<lparr>status_code = 200, content = JBool True\<rparr> \<and>
   fst (analyze_resume (sample_env (Inr null_reply)) text_pdf job fresh) =
     Inr \<lparr>status_code = 200, content = JNull\<rparr>"
proof -
  have ext: "fst (extract_text_from_pdf (sample_env reply) text_pdf fresh) = Inr text_pdf_text"
    for reply
    by (simp add: sample_text_pdf)
  have dumps: "finite_json v \<Longrightarrow> json_dumps_raises (sample_env reply) v = None" for v reply
    by (simp add: sample_dumps)
  note shape = any_json_shape [where env = "sample_env (Inr r)" and doc = text_pdf
      and w = fresh and t = text_pdf_text and jd = job and raw = r for r]
  from shape [of array_reply "JArr []"] shape [of string_reply "JStr (ascii ''ok'')"]
    shape [of number_reply "JInt 7"] shape [of true_reply "JBool True"]
    shape [of null_reply "JNull"] ext text_pdf_text_nonblank
  show ?thesis
    by (simp add: sample_reply sample_loads_values sample_dumps)
qed

text \<open>
  The claim as stated fails: the service text \<open>1e999\<close> parses, to the float \<open>inf\<close>, a
  top-level number, and the response is a 500 with an error body.
\<close>

theorem any_json_shape_counterexample:
  "fst (extract_text_from_pdf (sample_env (Inr huge_number_reply)) text_pdf fresh) =
     Inr text_pdf_text \<and>
   strip text_pdf_text \<noteq> [] \<and>
   generate_content (sample_env (Inr huge_number_reply)) model_name config
     (input_prompt text_pdf_text job) = Inr huge_number_reply \<and>
   json_loads (sample_env (Inr huge_number_reply)) huge_number_reply = Inr (JFloat PosInf) \<and>
   fst (analyze_resume (sample_env (Inr huge_number_reply)) text_pdf job fresh) =
     Inr \<lparr>status_code = 500,
          content = JObj [(error_key,
            JStr (ascii ''Out of range float values are not JSON compliant''))]\<rparr> \<and>
   fst (analyze_resume (sample_env (Inr huge_number_reply)) text_pdf job fresh) \<noteq>
     Inr \<lparr>status_code = 200, content = JFloat PosInf\<rparr>"
proof -
  have gen: "generate_content (sample_env (Inr huge_number_reply)) model_name config
      (input_prompt text_pdf_text job) = Inr huge_number_reply"
    by (rule sample_reply)
  have loads: "json_loads (sample_env (Inr huge_number_reply)) huge_number_reply =
      Inr (JFloat PosInf)"
    by (rule sample_loads_values)
  from analyze_forwarded [OF sample_text_pdf text_pdf_text_nonblank,
      of "Inr huge_number_reply" job fresh] gen loads
  have "fst (analyze_resume (sample_env (Inr huge_number_reply)) text_pdf job fresh) =
     Inr \<lparr>status_code = 500,
          content = JObj [(error_key,
            JStr (ascii ''Out of range float values are not JSON compliant''))]\<rparr>"
    by (simp add: sample_dumps)
  with gen loads text_pdf_text_nonblank show ?thesis
    by (simp add: sample_text_pdf)
qed

end
